theory Spec2Isabelle
  imports Complex_Main "HOL-Library.Sublist" "HOL-Library.DAList"
begin

section \<open>The Zeeky kernel service (services/kernel/main.py)\<close>

text \<open>
  The service keeps two module-level values, \<^verbatim>\<open>plugins_registry\<close> and \<^verbatim>\<open>start_time\<close>,
  and writes to a logger. Every handler is modelled as a function of the request and of
  the state of the process; a handler that can answer with an \<^verbatim>\<open>HTTPException\<close> returns a
  sum whose left summand is the error.
\<close>

subsection \<open>Python strings\<close>

text \<open>
  A Python \<^verbatim>\<open>str\<close> is a sequence of code points. A \<^typ>\<open>char\<close> stands for one code point
  below 256, so a \<^typ>\<open>string\<close> is a Python string over Latin-1 and \<^const>\<open>length\<close> counts what
  \<^verbatim>\<open>len\<close> counts. On these code points \<^verbatim>\<open>str.lower\<close> moves \<^verbatim>\<open>A..Z\<close> and the capital letters
  \<^verbatim>\<open>U+00C0..U+00DE\<close> (the sign \<^verbatim>\<open>U+00D7\<close> apart) up by 32 and keeps every other one.
\<close>

definition char_lower :: "char \<Rightarrow> char" where
  "char_lower c =
     (let n = (of_char c :: nat)
      in if (65 \<le> n \<and> n \<le> 90) \<or> (192 \<le> n \<and> n \<le> 214) \<or> (216 \<le> n \<and> n \<le> 222)
         then char_of (n + 32) else c)"

definition lower :: "string \<Rightarrow> string" where
  "lower s = map char_lower s"

text \<open>
  \<^verbatim>\<open>word in text\<close> on two strings: some suffix of \<^verbatim>\<open>text\<close> starts with \<^verbatim>\<open>word\<close>.
\<close>

fun str_in :: "string \<Rightarrow> string \<Rightarrow> bool" where
  "str_in word [] = (word = [])"
| "str_in word (c # cs) = (prefix word (c # cs) \<or> str_in word cs)"

text \<open>
  \<^verbatim>\<open>str.isspace\<close> on one code point below 256: the controls 9 to 13 and 28 to 31, the
  space, \<^verbatim>\<open>U+0085\<close> and \<^verbatim>\<open>U+00A0\<close>.
\<close>

definition isspace :: "char \<Rightarrow> bool" where
  "isspace c =
     (let n = (of_char c :: nat)
      in (9 \<le> n \<and> n \<le> 13) \<or> (28 \<le> n \<and> n \<le> 32) \<or> n = 133 \<or> n = 160)"

text \<open>
  \<^verbatim>\<open>text.split()\<close> with no separator: the maximal runs of characters that are not
  white space, in order; \<open>cur\<close> is the run being read.
\<close>

fun split_from :: "string \<Rightarrow> string \<Rightarrow> string list" where
  "split_from cur [] = (if cur = [] then [] else [cur])"
| "split_from cur (c # cs) =
     (if isspace c then (if cur = [] then split_from [] cs else cur # split_from [] cs)
      else split_from (cur @ [c]) cs)"

definition split :: "string \<Rightarrow> string list" where
  "split s = split_from [] s"

subsection \<open>Data model\<close>

text \<open>An entity is the dictionary with the keys \<^verbatim>\<open>type\<close>, \<^verbatim>\<open>value\<close>, \<^verbatim>\<open>start\<close>, \<^verbatim>\<open>end\<close>.\<close>

record entity =
  ent_type :: string
  ent_value :: string
  ent_start :: int
  ent_end :: int

record PluginInfo =
  id :: string
  name :: string
  version :: string
  description :: string
  capabilities :: "string list"
  status :: string

record PluginRegistration =
  id :: string
  name :: string
  version :: string
  description :: string
  capabilities :: "string list"
  endpoint :: string

text \<open>
  \<^verbatim>\<open>context\<close> is \<^verbatim>\<open>Optional[Dict[str, Any]]\<close>: the type \<open>'c\<close> stands for \<^verbatim>\<open>Any\<close>.
\<close>

record 'c IntentRequest =
  "text" :: string
  "context" :: "(string \<times> 'c) list option"
  user_id :: "string option"
  session_id :: "string option"

datatype log_level = INFO | ERROR

datatype py_exception = PyException (str: string)

datatype http_error = HTTPException (status_code: int) (detail: string)

text \<open>
  A \<^verbatim>\<open>dict\<close> keeps its keys distinct and iterates in insertion order; assigning to a
  key that is present keeps its place. That is \<^const>\<open>DAList.update\<close> on the association
  lists with distinct keys, and \<^const>\<open>DAList.impl_of\<close> gives the items in iteration order.
  A \<^verbatim>\<open>datetime\<close> is its number of microseconds.
\<close>

record kernel_state =
  plugins_registry :: "(string, PluginInfo) alist"
  start_time :: int
  log :: "(log_level \<times> string) list"

definition logger_info :: "string \<Rightarrow> kernel_state \<Rightarrow> kernel_state" where
  "logger_info msg s = s\<lparr>log := log s @ [(INFO, msg)]\<rparr>"

definition logger_error :: "string \<Rightarrow> kernel_state \<Rightarrow> kernel_state" where
  "logger_error msg s = s\<lparr>log := log s @ [(ERROR, msg)]\<rparr>"

subsection \<open>Classifier, extractor, router, generator\<close>

definition classify_intent :: "string \<Rightarrow> string" where
  "classify_intent txt =
     (let text_lower = lower txt
      in if list_ex (\<lambda>word. str_in word text_lower) [''play'', ''music'', ''song'', ''album'']
         then ''music_control''
         else if list_ex (\<lambda>word. str_in word text_lower)
                   [''schedule'', ''meeting'', ''calendar'', ''appointment'']
         then ''calendar_management''
         else if list_ex (\<lambda>word. str_in word text_lower)
                   [''note'', ''remember'', ''write'', ''save'']
         then ''note_taking''
         else if list_ex (\<lambda>word. str_in word text_lower)
                   [''weather'', ''temperature'', ''forecast'']
         then ''weather_query''
         else if list_ex (\<lambda>word. str_in word text_lower) [''news'', ''headlines'', ''update'']
         then ''news_query''
         else ''general_query'')"

text \<open>The loop of \<^verbatim>\<open>extract_entities\<close> over \<^verbatim>\<open>enumerate(words)\<close>.\<close>

fun extract_loop :: "(nat \<times> string) list \<Rightarrow> entity list \<Rightarrow> entity list" where
  "extract_loop [] entities = entities"
| "extract_loop ((i, word) # rest) entities =
     (if lower word \<in> set [''music'', ''song'', ''album'']
      then extract_loop rest
             (entities @ [\<lparr>ent_type = ''media_type'', ent_value = word,
                           ent_start = int i, ent_end = int i + 1\<rparr>])
      else if lower word \<in> set [''meeting'', ''appointment'']
      then extract_loop rest
             (entities @ [\<lparr>ent_type = ''event_type'', ent_value = word,
                           ent_start = int i, ent_end = int i + 1\<rparr>])
      else extract_loop rest entities)"

definition extract_entities :: "string \<Rightarrow> entity list" where
  "extract_entities txt =
     (let entities = []; words = split txt
      in extract_loop (enumerate 0 words) entities)"

text \<open>The loop of \<^verbatim>\<open>route_to_plugin\<close> over \<^verbatim>\<open>plugins_registry.items()\<close>.\<close>

fun route_loop :: "string \<Rightarrow> (string \<times> PluginInfo) list \<Rightarrow> string option" where
  "route_loop intent [] = None"
| "route_loop intent ((plugin_id, plugin) # items) =
     (if intent \<in> set (PluginInfo.capabilities plugin) then Some plugin_id
      else route_loop intent items)"

definition route_to_plugin :: "string \<Rightarrow> entity list \<Rightarrow> kernel_state \<Rightarrow> string option" where
  "route_to_plugin intent entities s =
     route_loop intent (DAList.impl_of (plugins_registry s))"

text \<open>
  \<^verbatim>\<open>if plugin_id:\<close> tests the truth value of an \<^verbatim>\<open>Optional[str]\<close>: \<^verbatim>\<open>None\<close> and the
  empty string are false.
\<close>

definition generate_response :: "string \<Rightarrow> entity list \<Rightarrow> string option \<Rightarrow> string" where
  "generate_response intent entities plugin_id =
     (case plugin_id of
        Some p \<Rightarrow>
          if p \<noteq> [] then ''Processing '' @ intent @ '' using plugin '' @ p
          else ''I understand you want to '' @ intent @ ''. Let me help you with that.''
      | None \<Rightarrow> ''I understand you want to '' @ intent @ ''. Let me help you with that.'')"

subsection \<open>The HTTP surface\<close>

record HealthResponse =
  status :: string
  timestamp :: int
  version :: string
  uptime :: real

record IntentResponse =
  intent :: string
  confidence :: real
  entities :: "entity list"
  response :: string
  plugin_id :: "string option"

text \<open>
  \<^verbatim>\<open>timedelta.total_seconds()\<close>: the microseconds divided by \<open>10\<^sup>6\<close>. Python rounds the
  quotient to the nearest float, which keeps its sign and the order of two quotients.
\<close>

definition total_seconds :: "int \<Rightarrow> real" where
  "total_seconds us = real_of_int us / 1000000"

text \<open>
  \<^verbatim>\<open>health_check\<close> reads the clock twice: \<open>now1\<close> for the uptime, \<open>now2\<close> for the timestamp.
\<close>

definition health_check :: "int \<Rightarrow> int \<Rightarrow> kernel_state \<Rightarrow> HealthResponse" where
  "health_check now1 now2 s =
     (let uptime = total_seconds (now1 - start_time s)
      in \<lparr>HealthResponse.status = ''healthy'', timestamp = now2,
          HealthResponse.version = ''1.0.0'', uptime = uptime\<rparr>)"

text \<open>
  The body of the \<^verbatim>\<open>try\<close> of \<^verbatim>\<open>process_intent\<close>. None of its statements raises on a
  request of the declared type, so the body always ends in its \<^verbatim>\<open>return\<close>. The
  parameter \<^verbatim>\<open>background_tasks\<close> is never used and is left out.
\<close>

definition process_intent_try ::
  "'c IntentRequest \<Rightarrow> kernel_state \<Rightarrow> (py_exception + IntentResponse) \<times> kernel_state" where
  "process_intent_try request s =
     (let s1 = logger_info (''Processing intent: '' @ text request) s;
          intent = classify_intent (text request);
          entities = extract_entities (text request);
          plugin_id = route_to_plugin intent entities s1;
          response = generate_response intent entities plugin_id
      in (Inr \<lparr>intent = intent, confidence = 0.8, entities = entities,
                response = response, plugin_id = plugin_id\<rparr>, s1))"

definition process_intent ::
  "'c IntentRequest \<Rightarrow> kernel_state \<Rightarrow> (http_error + IntentResponse) \<times> kernel_state" where
  "process_intent request s =
     (case process_intent_try request s of
        (Inr r, s') \<Rightarrow> (Inr r, s')
      | (Inl e, s') \<Rightarrow>
          (Inl (HTTPException 500 ''Internal server error''),
           logger_error (''Error processing intent: '' @ str e) s'))"

definition get_plugins :: "kernel_state \<Rightarrow> PluginInfo list" where
  "get_plugins s = map snd (DAList.impl_of (plugins_registry s))"

text \<open>The body of the \<^verbatim>\<open>try\<close> of \<^verbatim>\<open>register_plugin\<close>; it always ends in its \<^verbatim>\<open>return\<close> too.\<close>

definition register_plugin_try ::
  "PluginRegistration \<Rightarrow> kernel_state \<Rightarrow> (py_exception + PluginInfo) \<times> kernel_state" where
  "register_plugin_try plugin s =
     (let plugin_info =
            \<lparr>PluginInfo.id = PluginRegistration.id plugin,
             PluginInfo.name = PluginRegistration.name plugin,
             PluginInfo.version = PluginRegistration.version plugin,
             PluginInfo.description = PluginRegistration.description plugin,
             PluginInfo.capabilities = PluginRegistration.capabilities plugin,
             PluginInfo.status = ''active''\<rparr>;
          s1 = s\<lparr>plugins_registry :=
                   DAList.update (PluginRegistration.id plugin) plugin_info (plugins_registry s)\<rparr>;
          s2 = logger_info (''Registered plugin: '' @ PluginRegistration.id plugin) s1
      in (Inr plugin_info, s2))"

definition register_plugin ::
  "PluginRegistration \<Rightarrow> kernel_state \<Rightarrow> (http_error + PluginInfo) \<times> kernel_state" where
  "register_plugin plugin s =
     (case register_plugin_try plugin s of
        (Inr r, s') \<Rightarrow> (Inr r, s')
      | (Inl e, s') \<Rightarrow>
          (Inl (HTTPException 500 ''Failed to register plugin''),
           logger_error (''Error registering plugin: '' @ str e) s'))"

text \<open>The state of the process when the module has been loaded at time \<open>t0\<close>.\<close>

definition initial_state :: "int \<Rightarrow> kernel_state" where
  "initial_state t0 = \<lparr>plugins_registry = DAList.empty, start_time = t0, log = []\<rparr>"

subsection \<open>The specification's reading of the classifier and of the extractor\<close>

text \<open>
  Section 4.2 of the specification: five keyword lists in priority order, a keyword
  matching when it occurs as a contiguous part of the lower-cased text, the first list
  with a matching keyword giving the category, and \<^verbatim>\<open>general_query\<close> when there is none.
\<close>

definition keyword_lists :: "(string \<times> string list) list" where
  "keyword_lists =
     [(''music_control'', [''play'', ''music'', ''song'', ''album'']),
      (''calendar_management'', [''schedule'', ''meeting'', ''calendar'', ''appointment'']),
      (''note_taking'', [''note'', ''remember'', ''write'', ''save'']),
      (''weather_query'', [''weather'', ''temperature'', ''forecast'']),
      (''news_query'', [''news'', ''headlines'', ''update''])]"

definition occurs_in :: "string \<Rightarrow> string \<Rightarrow> bool" where
  "occurs_in word t \<longleftrightarrow> (\<exists>before after. t = before @ word @ after)"

definition first_category :: "string \<Rightarrow> string" where
  "first_category txt =
     (case find (\<lambda>(category, keywords). \<exists>word \<in> set keywords. occurs_in word (lower txt))
             keyword_lists of
        Some (category, keywords) \<Rightarrow> category
      | None \<Rightarrow> ''general_query'')"

text \<open>
  Section 4.3 of the specification: the entity, if any, of the token with index \<open>i\<close>.
\<close>

definition token_entity :: "nat \<Rightarrow> string \<Rightarrow> entity option" where
  "token_entity i token =
     (if lower token \<in> {''music'', ''song'', ''album''}
      then Some \<lparr>ent_type = ''media_type'', ent_value = token,
                 ent_start = int i, ent_end = int i + 1\<rparr>
      else if lower token \<in> {''meeting'', ''appointment''}
      then Some \<lparr>ent_type = ''event_type'', ent_value = token,
                 ent_start = int i, ent_end = int i + 1\<rparr>
      else None)"

section \<open>Properties\<close>

subsection \<open>Strings\<close>

lemma str_in_sublist: "str_in word t \<longleftrightarrow> sublist word t"
  by (induction t) (simp_all add: sublist_Cons_right)

lemma str_in_occurs_in: "str_in word t \<longleftrightarrow> occurs_in word t"
  by (simp add: str_in_sublist sublist_def occurs_in_def)

lemma list_ex_str_in:
  "list_ex (\<lambda>word. str_in word t) ws \<longleftrightarrow> (\<exists>word \<in> set ws. occurs_in word t)"
  by (simp add: list_ex_iff str_in_occurs_in)

text \<open>
  What \<^const>\<open>split\<close> returns: its tokens are not empty and hold no white space, put
  together they are the text without its white space, a white-space character ends the
  token before it, and a run without white space is one token.
\<close>

lemma split_from_concat:
  "concat (split_from cur s) = cur @ filter (\<lambda>c. \<not> isspace c) s"
  by (induction cur s rule: split_from.induct) simp_all

lemma split_from_nonempty: "[] \<notin> set (split_from cur s)"
  by (induction cur s rule: split_from.induct) simp_all

lemma split_tokens:
  assumes "t \<in> set (split s)"
  shows "t \<noteq> [] \<and> (\<forall>c \<in> set t. \<not> isspace c)"
proof
  from assms show "t \<noteq> []"
    using split_from_nonempty [of "[]" s] by (auto simp: split_def)
  have "set t \<subseteq> set (concat (split s))"
    using assms by auto
  also have "\<dots> = {c \<in> set s. \<not> isspace c}"
    by (simp add: split_def split_from_concat)
  finally show "\<forall>c \<in> set t. \<not> isspace c" by blast
qed

lemma split_from_space:
  "isspace w \<Longrightarrow> split_from cur (a @ w # b) = split_from cur a @ split_from [] b"
  by (induction cur a rule: split_from.induct) simp_all

lemma split_space: "isspace w \<Longrightarrow> split (a @ w # b) = split a @ split b"
  by (simp add: split_def split_from_space)

lemma split_from_token:
  "\<forall>c \<in> set t. \<not> isspace c \<Longrightarrow> split_from cur t = (if cur @ t = [] then [] else [cur @ t])"
  by (induction cur t rule: split_from.induct) simp_all

lemma split_token: "t \<noteq> [] \<Longrightarrow> \<forall>c \<in> set t. \<not> isspace c \<Longrightarrow> split t = [t]"
  by (simp add: split_def split_from_token)

subsection \<open>Classifier\<close>

text \<open>
  C1. For every text, \<^const>\<open>classify_intent\<close> lower-cases the text and returns the
  category of the first of the five keyword lists, in the order music_control,
  calendar_management, note_taking, weather_query, news_query, that has a keyword
  occurring as a contiguous part of the lower-cased text, and general_query when no
  list has one. When keywords of several lists occur, the earliest list wins:
  "remember to play music" is classified as music_control. The lower-casing is what
  decides a text in capitals: \<^const>\<open>lower\<close> takes the capital letters to the small ones,
  "PLAY" is classified as music_control, and so is "Remember To PLAY Music".
\<close>

theorem classify_intent_first_category:
  "classify_intent txt = first_category txt \<and>
   classify_intent ''remember to play music'' = ''music_control'' \<and>
   lower ''ABCDEFGHIJKLMNOPQRSTUVWXYZ'' = ''abcdefghijklmnopqrstuvwxyz'' \<and>
   classify_intent ''PLAY'' = ''music_control'' \<and>
   classify_intent ''Remember To PLAY Music'' = ''music_control''"
proof (intro conjI)
  show "classify_intent txt = first_category txt"
    unfolding classify_intent_def first_category_def keyword_lists_def Let_def list_ex_str_in
    by simp
  show "classify_intent ''remember to play music'' = ''music_control''"
    by code_simp
  show "lower ''ABCDEFGHIJKLMNOPQRSTUVWXYZ'' = ''abcdefghijklmnopqrstuvwxyz''"
    by code_simp
  show "classify_intent ''PLAY'' = ''music_control''"
    by code_simp
  show "classify_intent ''Remember To PLAY Music'' = ''music_control''"
    by code_simp
qed

theorem classify_intent_first_category_witness:
  "first_category ''Any NEWS about the Forecast?'' = ''weather_query'' \<and>
   first_category ''Latest HEADLINES'' = ''news_query''"
proof
  have "classify_intent ''Any NEWS about the Forecast?'' = ''weather_query''"
    by code_simp
  then show "first_category ''Any NEWS about the Forecast?'' = ''weather_query''"
    using classify_intent_first_category [of "''Any NEWS about the Forecast?''"] by simp
  have "classify_intent ''Latest HEADLINES'' = ''news_query''"
    by code_simp
  then show "first_category ''Latest HEADLINES'' = ''news_query''"
    using classify_intent_first_category [of "''Latest HEADLINES''"] by simp
qed

subsection \<open>Entity extractor\<close>

lemma extract_loop_map_filter:
  "extract_loop xs acc = acc @ List.map_filter (\<lambda>(i, token). token_entity i token) xs"
  by (induction xs arbitrary: acc) (auto simp: map_filter_simps token_entity_def)

text \<open>
  C2. For every text, \<^const>\<open>extract_entities\<close> splits the text on white space and returns,
  in token order, one entity for each token whose lower-cased whole form is one of
  music, song, album (type media_type) or one of meeting, appointment (type
  event_type); its value is the token as written, its start the index of the token and
  its end the index plus one; the other tokens give no entity. For "play the music now"
  the result is the single entity of type media_type, value music, start 2, end 3.
\<close>

theorem extract_entities_tokens:
  "extract_entities txt =
     List.map_filter (\<lambda>(i, token). token_entity i token) (enumerate 0 (split txt)) \<and>
   extract_entities ''play the music now'' =
     [\<lparr>ent_type = ''media_type'', ent_value = ''music'', ent_start = 2, ent_end = 3\<rparr>]"
proof
  show "extract_entities txt =
     List.map_filter (\<lambda>(i, token). token_entity i token) (enumerate 0 (split txt))"
    by (simp add: extract_entities_def extract_loop_map_filter)
  show "extract_entities ''play the music now'' =
     [\<lparr>ent_type = ''media_type'', ent_value = ''music'', ent_start = 2, ent_end = 3\<rparr>]"
    by code_simp
qed

theorem extract_entities_tokens_witness:
  "List.map_filter (\<lambda>(i, token). token_entity i token)
     (enumerate 0 (split ''Schedule a  Meeting about the ALBUM'')) =
   [\<lparr>ent_type = ''event_type'', ent_value = ''Meeting'', ent_start = 2, ent_end = 3\<rparr>,
    \<lparr>ent_type = ''media_type'', ent_value = ''ALBUM'', ent_start = 5, ent_end = 6\<rparr>]"
proof -
  have "extract_entities ''Schedule a  Meeting about the ALBUM'' =
    [\<lparr>ent_type = ''event_type'', ent_value = ''Meeting'', ent_start = 2, ent_end = 3\<rparr>,
     \<lparr>ent_type = ''media_type'', ent_value = ''ALBUM'', ent_start = 5, ent_end = 6\<rparr>]"
    by code_simp
  then show ?thesis
    using extract_entities_tokens [of "''Schedule a  Meeting about the ALBUM''"] by simp
qed

subsection \<open>Registry and router\<close>


lemma route_loop_Some:
  assumes "route_loop cap xs = Some pid"
  shows "\<exists>before info after. xs = before @ (pid, info) # after \<and>
           cap \<in> set (PluginInfo.capabilities info) \<and>
           (\<forall>(k, v) \<in> set before. cap \<notin> set (PluginInfo.capabilities v))"
  using assms
proof (induction xs)
  case Nil
  then show ?case by simp
next
  case (Cons x xs)
  obtain k v where x: "x = (k, v)" by (cases x)
  show ?case
  proof (cases "cap \<in> set (PluginInfo.capabilities v)")
    case True
    from Cons.prems have "k = pid" unfolding x using True by simp
    then have "x # xs = [] @ (pid, v) # xs" by (simp add: x)
    moreover have "\<forall>(k, v) \<in> set []. cap \<notin> set (PluginInfo.capabilities v)" by simp
    ultimately show ?thesis using True by (intro exI conjI)
  next
    case False
    from Cons.prems have "route_loop cap xs = Some pid" unfolding x using False by simp
    from Cons.IH [OF this] obtain before info after where e: "xs = before @ (pid, info) # after"
        and c: "cap \<in> set (PluginInfo.capabilities info)"
        and n: "\<forall>(k, v) \<in> set before. cap \<notin> set (PluginInfo.capabilities v)" by blast
    from e have "x # xs = (x # before) @ (pid, info) # after" by simp
    moreover from n False have "\<forall>(k, v) \<in> set (x # before). cap \<notin> set (PluginInfo.capabilities v)"
      by (simp add: x)
    ultimately show ?thesis using c by (intro exI conjI)
  qed
qed

lemma register_plugin_eq:
  "register_plugin plugin s =
     (Inr \<lparr>PluginInfo.id = PluginRegistration.id plugin,
           PluginInfo.name = PluginRegistration.name plugin,
           PluginInfo.version = PluginRegistration.version plugin,
           PluginInfo.description = PluginRegistration.description plugin,
           PluginInfo.capabilities = PluginRegistration.capabilities plugin,
           PluginInfo.status = ''active''\<rparr>,
      s\<lparr>plugins_registry :=
           DAList.update (PluginRegistration.id plugin)
             \<lparr>PluginInfo.id = PluginRegistration.id plugin,
              PluginInfo.name = PluginRegistration.name plugin,
              PluginInfo.version = PluginRegistration.version plugin,
              PluginInfo.description = PluginRegistration.description plugin,
              PluginInfo.capabilities = PluginRegistration.capabilities plugin,
              PluginInfo.status = ''active''\<rparr>
             (plugins_registry s),
         log := log s @ [(INFO, ''Registered plugin: '' @ PluginRegistration.id plugin)]\<rparr>)"
  by (simp add: register_plugin_def register_plugin_try_def logger_info_def Let_def)


lemma route_to_plugin_Some:
  assumes "route_to_plugin cap es s = Some pid"
  shows "\<exists>info. DAList.lookup (plugins_registry s) pid = Some info \<and>
           cap \<in> set (PluginInfo.capabilities info)"
proof -
  from assms have "route_loop cap (DAList.impl_of (plugins_registry s)) = Some pid"
    by (simp add: route_to_plugin_def)
  from route_loop_Some [OF this] obtain before info after
    where e: "DAList.impl_of (plugins_registry s) = before @ (pid, info) # after"
      and c: "cap \<in> set (PluginInfo.capabilities info)" by blast
  have "(pid, info) \<in> set (DAList.impl_of (plugins_registry s))" by (simp add: e)
  then have "map_of (DAList.impl_of (plugins_registry s)) pid = Some info"
    by (simp add: map_of_is_SomeI)
  then have "DAList.lookup (plugins_registry s) pid = Some info"
    by (simp add: DAList.lookup.rep_eq)
  with c show ?thesis by (intro exI conjI)
qed

lemma length_filter_key:
  "distinct (map fst xs) \<Longrightarrow>
     length (filter (\<lambda>(k, v). k = x) xs) = (if x \<in> fst ` set xs then 1 else 0)"
  by (induction xs) (auto simp: image_iff)

lemma length_alist_update:
  "length (AList.update k v xs) = (if k \<in> fst ` set xs then length xs else Suc (length xs))"
  by (induction xs) auto



text \<open>
  C10. Routing matches capabilities exactly. For every intent and every state, when
  \<^const>\<open>route_to_plugin\<close> returns a plugin id, the intent is, as it is written, an element
  of the capabilities of the plugin registered under that id; so a plugin whose
  capabilities do not hold the intent itself is never returned. Neither side is
  lower-cased: a plugin declaring "Music_Control" is not returned for "music_control",
  and a plugin declaring "music_control" is not returned for "Music_Control".
\<close>

theorem route_exact_capability:
  "(route_to_plugin cap es s = Some pid \<longrightarrow>
      (\<exists>info. DAList.lookup (plugins_registry s) pid = Some info \<and>
         cap \<in> set (PluginInfo.capabilities info))) \<and>
   (DAList.lookup (plugins_registry s) pid = Some info \<and>
    cap \<notin> set (PluginInfo.capabilities info) \<longrightarrow>
      route_to_plugin cap es s \<noteq> Some pid) \<and>
   route_to_plugin ''music_control'' []
     (snd (register_plugin
        \<lparr>PluginRegistration.id = ''P1'', name = ''Player'', version = ''1.0'',
         description = ''plays music'', capabilities = [''Music_Control''],
         endpoint = ''http://localhost:9000''\<rparr> (initial_state 0))) = None \<and>
   route_to_plugin ''Music_Control'' []
     (snd (register_plugin
        \<lparr>PluginRegistration.id = ''P1'', name = ''Player'', version = ''1.0'',
         description = ''plays music'', capabilities = [''music_control''],
         endpoint = ''http://localhost:9000''\<rparr> (initial_state 0))) = None"
proof (intro conjI impI)
  assume "route_to_plugin cap es s = Some pid"
  then show "\<exists>info. DAList.lookup (plugins_registry s) pid = Some info \<and>
         cap \<in> set (PluginInfo.capabilities info)"
    by (rule route_to_plugin_Some)
next
  assume a: "DAList.lookup (plugins_registry s) pid = Some info \<and>
    cap \<notin> set (PluginInfo.capabilities info)"
  show "route_to_plugin cap es s \<noteq> Some pid"
  proof
    assume "route_to_plugin cap es s = Some pid"
    from route_to_plugin_Some [OF this] a show False by auto
  qed
next
  show "route_to_plugin ''music_control'' []
     (snd (register_plugin
        \<lparr>PluginRegistration.id = ''P1'', name = ''Player'', version = ''1.0'',
         description = ''plays music'', capabilities = [''Music_Control''],
         endpoint = ''http://localhost:9000''\<rparr> (initial_state 0))) = None"
    by (simp add: route_to_plugin_def register_plugin_eq initial_state_def
          DAList.update.rep_eq DAList.empty.rep_eq)
next
  show "route_to_plugin ''Music_Control'' []
     (snd (register_plugin
        \<lparr>PluginRegistration.id = ''P1'', name = ''Player'', version = ''1.0'',
         description = ''plays music'', capabilities = [''music_control''],
         endpoint = ''http://localhost:9000''\<rparr> (initial_state 0))) = None"
    by (simp add: route_to_plugin_def register_plugin_eq initial_state_def
          DAList.update.rep_eq DAList.empty.rep_eq)
qed

theorem route_exact_capability_witness:
  "route_to_plugin ''music_control'' []
     (snd (register_plugin
        \<lparr>PluginRegistration.id = ''P2'', name = ''Radio'', version = ''1.0'',
         description = ''radio'', capabilities = [''music_control''], endpoint = ''b''\<rparr>
        (snd (register_plugin
           \<lparr>PluginRegistration.id = ''P1'', name = ''Player'', version = ''1.0'',
            description = ''plays music'', capabilities = [''Music_Control''],
            endpoint = ''a''\<rparr> (initial_state 0))))) = Some ''P2'' \<and>
   (\<exists>info. DAList.lookup
      (plugins_registry (snd (register_plugin
        \<lparr>PluginRegistration.id = ''P2'', name = ''Radio'', version = ''1.0'',
         description = ''radio'', capabilities = [''music_control''], endpoint = ''b''\<rparr>
        (snd (register_plugin
           \<lparr>PluginRegistration.id = ''P1'', name = ''Player'', version = ''1.0'',
            description = ''plays music'', capabilities = [''Music_Control''],
            endpoint = ''a''\<rparr> (initial_state 0)))))) ''P2'' = Some info \<and>
      ''music_control'' \<in> set (PluginInfo.capabilities info))"
proof -
  let ?s = "snd (register_plugin
        \<lparr>PluginRegistration.id = ''P2'', name = ''Radio'', version = ''1.0'',
         description = ''radio'', capabilities = [''music_control''], endpoint = ''b''\<rparr>
        (snd (register_plugin
           \<lparr>PluginRegistration.id = ''P1'', name = ''Player'', version = ''1.0'',
            description = ''plays music'', capabilities = [''Music_Control''],
            endpoint = ''a''\<rparr> (initial_state 0))))"
  have r: "route_to_plugin ''music_control'' [] ?s = Some ''P2''"
    by (simp add: route_to_plugin_def register_plugin_eq initial_state_def
          DAList.update.rep_eq DAList.empty.rep_eq)
  with route_exact_capability [of "''music_control''" "[]" ?s "''P2''"]
  show ?thesis by simp
qed

text \<open>
  C4. Re-registration overwrites. For every state and any two registration requests with
  the same id, after registering the first and then the second the registry holds
  exactly one entry under that id, the entry carries the metadata of the second request,
  and the registry (and so the list of \<^const>\<open>get_plugins\<close>) is as long after the second
  registration as it was after the first.
\<close>

theorem reregister_overwrites:
  assumes "PluginRegistration.id p2 = PluginRegistration.id p1"
  shows "length (filter (\<lambda>(k, v). k = PluginRegistration.id p1)
             (DAList.impl_of (plugins_registry
                (snd (register_plugin p2 (snd (register_plugin p1 s))))))) = 1 \<and>
         DAList.lookup (plugins_registry (snd (register_plugin p2 (snd (register_plugin p1 s)))))
             (PluginRegistration.id p1) =
           Some \<lparr>PluginInfo.id = PluginRegistration.id p2,
                 PluginInfo.name = PluginRegistration.name p2,
                 PluginInfo.version = PluginRegistration.version p2,
                 PluginInfo.description = PluginRegistration.description p2,
                 PluginInfo.capabilities = PluginRegistration.capabilities p2,
                 PluginInfo.status = ''active''\<rparr> \<and>
         length (DAList.impl_of (plugins_registry
                   (snd (register_plugin p2 (snd (register_plugin p1 s)))))) =
           length (DAList.impl_of (plugins_registry (snd (register_plugin p1 s)))) \<and>
         length (get_plugins (snd (register_plugin p2 (snd (register_plugin p1 s))))) =
           length (get_plugins (snd (register_plugin p1 s)))"
proof -
  let ?k = "PluginRegistration.id p1"
  let ?s1 = "snd (register_plugin p1 s)"
  let ?s2 = "snd (register_plugin p2 ?s1)"
  have key1: "?k \<in> fst ` set (DAList.impl_of (plugins_registry ?s1))"
    by (simp add: register_plugin_eq DAList.update.rep_eq dom_update)
  have key2: "?k \<in> fst ` set (DAList.impl_of (plugins_registry ?s2))"
    by (simp add: register_plugin_eq DAList.update.rep_eq dom_update assms)
  have "distinct (map fst (DAList.impl_of (plugins_registry ?s2)))" by simp
  from length_filter_key [OF this, of ?k] key2
  have one: "length (filter (\<lambda>(k, v). k = ?k) (DAList.impl_of (plugins_registry ?s2))) = 1"
    by simp
  have look: "DAList.lookup (plugins_registry ?s2) ?k =
           Some \<lparr>PluginInfo.id = PluginRegistration.id p2,
                 PluginInfo.name = PluginRegistration.name p2,
                 PluginInfo.version = PluginRegistration.version p2,
                 PluginInfo.description = PluginRegistration.description p2,
                 PluginInfo.capabilities = PluginRegistration.capabilities p2,
                 PluginInfo.status = ''active''\<rparr>"
    by (simp add: register_plugin_eq assms)
  have "DAList.impl_of (plugins_registry ?s2) =
          AList.update ?k \<lparr>PluginInfo.id = PluginRegistration.id p2,
                 PluginInfo.name = PluginRegistration.name p2,
                 PluginInfo.version = PluginRegistration.version p2,
                 PluginInfo.description = PluginRegistration.description p2,
                 PluginInfo.capabilities = PluginRegistration.capabilities p2,
                 PluginInfo.status = ''active''\<rparr> (DAList.impl_of (plugins_registry ?s1))"
    by (simp add: register_plugin_eq [of p2] DAList.update.rep_eq assms)
  with key1 have len: "length (DAList.impl_of (plugins_registry ?s2)) =
           length (DAList.impl_of (plugins_registry ?s1))"
    by (simp only: length_alist_update if_True)
  then have "length (get_plugins ?s2) = length (get_plugins ?s1)"
    by (simp add: get_plugins_def)
  with one look len show ?thesis by (intro conjI)
qed

theorem reregister_overwrites_witness:
  "PluginRegistration.id
     \<lparr>PluginRegistration.id = ''P1'', name = ''Second'', version = ''2.0'',
      description = ''new'', capabilities = [''news_query''], endpoint = ''b''\<rparr> =
   PluginRegistration.id
     \<lparr>PluginRegistration.id = ''P1'', name = ''First'', version = ''1.0'',
      description = ''old'', capabilities = [''music_control''], endpoint = ''a''\<rparr> \<and>
   get_plugins
     (snd (register_plugin
        \<lparr>PluginRegistration.id = ''P1'', name = ''Second'', version = ''2.0'',
         description = ''new'', capabilities = [''news_query''], endpoint = ''b''\<rparr>
        (snd (register_plugin
           \<lparr>PluginRegistration.id = ''P1'', name = ''First'', version = ''1.0'',
            description = ''old'', capabilities = [''music_control''], endpoint = ''a''\<rparr>
           (initial_state 0))))) =
   [\<lparr>PluginInfo.id = ''P1'', name = ''Second'', version = ''2.0'',
     description = ''new'', capabilities = [''news_query''], status = ''active''\<rparr>]"
  using reregister_overwrites [of
      "\<lparr>PluginRegistration.id = ''P1'', name = ''Second'', version = ''2.0'',
        description = ''new'', capabilities = [''news_query''], endpoint = ''b''\<rparr>"
      "\<lparr>PluginRegistration.id = ''P1'', name = ''First'', version = ''1.0'',
        description = ''old'', capabilities = [''music_control''], endpoint = ''a''\<rparr>"
      "initial_state 0"]
  by (simp add: register_plugin_eq initial_state_def get_plugins_def
        DAList.update.rep_eq DAList.empty.rep_eq)

text \<open>
  C5. For every request of type \<^typ>\<open>PluginRegistration\<close>, \<^const>\<open>register_plugin\<close> succeeds, so
  its error branch is never taken; it returns the record with the id, name, version,
  description and capabilities of the request and the status "active", the registry then
  holds that same record under the id of the request, and neither the result nor the new
  state depends on the endpoint of the request (\<^typ>\<open>PluginInfo\<close> has no field for it, and a
  request has no status field that could be submitted).
\<close>

theorem register_plugin_succeeds:
  "fst (register_plugin plugin s) =
     Inr \<lparr>PluginInfo.id = PluginRegistration.id plugin,
          PluginInfo.name = PluginRegistration.name plugin,
          PluginInfo.version = PluginRegistration.version plugin,
          PluginInfo.description = PluginRegistration.description plugin,
          PluginInfo.capabilities = PluginRegistration.capabilities plugin,
          PluginInfo.status = ''active''\<rparr> \<and>
   (\<forall>e. fst (register_plugin plugin s) \<noteq> Inl e) \<and>
   DAList.lookup (plugins_registry (snd (register_plugin plugin s)))
       (PluginRegistration.id plugin) =
     Some \<lparr>PluginInfo.id = PluginRegistration.id plugin,
           PluginInfo.name = PluginRegistration.name plugin,
           PluginInfo.version = PluginRegistration.version plugin,
           PluginInfo.description = PluginRegistration.description plugin,
           PluginInfo.capabilities = PluginRegistration.capabilities plugin,
           PluginInfo.status = ''active''\<rparr> \<and>
   (\<forall>e. register_plugin (plugin\<lparr>endpoint := e\<rparr>) s = register_plugin plugin s)"
  by (simp add: register_plugin_eq)

theorem register_plugin_succeeds_witness:
  "register_plugin
     \<lparr>PluginRegistration.id = ''P1'', name = ''Player'', version = ''1.0'',
      description = ''plays music'', capabilities = [''music_control''],
      endpoint = ''http://localhost:9000''\<rparr> (initial_state 0) =
   (Inr \<lparr>PluginInfo.id = ''P1'', name = ''Player'', version = ''1.0'',
         description = ''plays music'', capabilities = [''music_control''],
         status = ''active''\<rparr>,
    \<lparr>plugins_registry =
       DAList.update ''P1''
         \<lparr>PluginInfo.id = ''P1'', name = ''Player'', version = ''1.0'',
          description = ''plays music'', capabilities = [''music_control''],
          status = ''active''\<rparr> DAList.empty,
     start_time = 0, log = [(INFO, ''Registered plugin: P1'')]\<rparr>)"
  using register_plugin_succeeds [of
      "\<lparr>PluginRegistration.id = ''P1'', name = ''Player'', version = ''1.0'',
        description = ''plays music'', capabilities = [''music_control''],
        endpoint = ''http://localhost:9000''\<rparr>" "initial_state 0"]
  by (simp add: register_plugin_eq initial_state_def)

subsection \<open>Intent processing\<close>

lemma process_intent_eq:
  "process_intent request s =
     (Inr \<lparr>intent = classify_intent (text request), confidence = 0.8,
            entities = extract_entities (text request),
            response = generate_response (classify_intent (text request))
               (extract_entities (text request))
               (route_to_plugin (classify_intent (text request))
                  (extract_entities (text request)) s),
            plugin_id = route_to_plugin (classify_intent (text request))
                  (extract_entities (text request)) s\<rparr>,
      s\<lparr>log := log s @ [(INFO, ''Processing intent: '' @ text request)]\<rparr>)"
  by (simp add: process_intent_def process_intent_try_def logger_info_def Let_def
        route_to_plugin_def)

text \<open>
  C6. The response string is "Processing <intent> using plugin <id>" when routing gave a
  plugin id. The code tests the truth value of the id, so for the plugin registered under
  the empty id it answers with the other sentence while it reports the plugin id as
  present: with that plugin declaring "weather_query", the request "What's the weather
  tomorrow?" gets the response below.
\<close>

theorem process_intent_empty_plugin_id:
  "fst (process_intent
     \<lparr>text = ''What's the weather tomorrow?'', context = None :: (string \<times> unit) list option,
      user_id = None, session_id = None\<rparr>
     (snd (register_plugin
        \<lparr>PluginRegistration.id = '''', name = ''Weather'', version = ''1.0'',
         description = ''forecasts'', capabilities = [''weather_query''],
         endpoint = ''http://localhost:9001''\<rparr> (initial_state 0)))) =
   Inr \<lparr>intent = ''weather_query'', confidence = 0.8, entities = [],
        response = ''I understand you want to weather_query. Let me help you with that.'',
        plugin_id = Some ''''\<rparr>"
proof -
  have c: "classify_intent ''What's the weather tomorrow?'' = ''weather_query''"
    by code_simp
  have e: "extract_entities ''What's the weather tomorrow?'' = []"
    by code_simp
  show ?thesis
    by (simp add: process_intent_eq c e route_to_plugin_def register_plugin_eq initial_state_def
          DAList.update.rep_eq DAList.empty.rep_eq generate_response_def)
qed

text \<open>
  C7. \<^const>\<open>process_intent\<close> never changes the plugin registry: for every request and every
  state the registry afterwards is the registry before. The only thing it changes is the
  log, which gets the line of \<^verbatim>\<open>logger.info\<close>.
\<close>

theorem process_intent_keeps_registry:
  "plugins_registry (snd (process_intent request s)) = plugins_registry s \<and>
   snd (process_intent request s) =
     s\<lparr>log := log s @ [(INFO, ''Processing intent: '' @ text request)]\<rparr>"
  by (simp add: process_intent_eq)

theorem process_intent_keeps_registry_witness:
  "plugins_registry
     (snd (process_intent
        \<lparr>text = ''play a song'', context = None :: (string \<times> unit) list option,
         user_id = None, session_id = None\<rparr>
        (snd (register_plugin
           \<lparr>PluginRegistration.id = ''P1'', name = ''Player'', version = ''1.0'',
            description = ''plays music'', capabilities = [''music_control''],
            endpoint = ''http://localhost:9000''\<rparr> (initial_state 0))))) =
   DAList.update ''P1''
     \<lparr>PluginInfo.id = ''P1'', name = ''Player'', version = ''1.0'',
      description = ''plays music'', capabilities = [''music_control''],
      status = ''active''\<rparr> DAList.empty"
  using process_intent_keeps_registry [of
      "\<lparr>text = ''play a song'', context = None :: (string \<times> unit) list option,
         user_id = None, session_id = None\<rparr>"
      "snd (register_plugin
           \<lparr>PluginRegistration.id = ''P1'', name = ''Player'', version = ''1.0'',
            description = ''plays music'', capabilities = [''music_control''],
            endpoint = ''http://localhost:9000''\<rparr> (initial_state 0))"]
  by (simp add: register_plugin_eq initial_state_def)

text \<open>
  C8. The fields context, user_id and session_id have no effect: two requests with the
  same text, whatever their other fields (and whatever the type of the values of their
  contexts), get the same response in the same state, and leave the same state.
\<close>

theorem process_intent_ignores_context:
  fixes r1 :: "'a IntentRequest" and r2 :: "'b IntentRequest"
  assumes "text r1 = text r2"
  shows "process_intent r1 s = process_intent r2 s"
  by (simp add: process_intent_eq assms)

theorem process_intent_ignores_context_witness:
  "text \<lparr>text = ''play a song'', context = None :: (string \<times> unit) list option,
          user_id = None, session_id = None\<rparr> =
   text \<lparr>text = ''play a song'', context = Some [(''volume'', 7 :: int)],
          user_id = Some ''u1'', session_id = Some ''s1''\<rparr> \<and>
   process_intent
     \<lparr>text = ''play a song'', context = None :: (string \<times> unit) list option,
      user_id = None, session_id = None\<rparr> (initial_state 0) =
   process_intent
     \<lparr>text = ''play a song'', context = Some [(''volume'', 7 :: int)],
      user_id = Some ''u1'', session_id = Some ''s1''\<rparr> (initial_state 0)"
  using process_intent_ignores_context [of
      "\<lparr>text = ''play a song'', context = None :: (string \<times> unit) list option,
         user_id = None, session_id = None\<rparr>"
      "\<lparr>text = ''play a song'', context = Some [(''volume'', 7 :: int)],
         user_id = Some ''u1'', session_id = Some ''s1''\<rparr>" "initial_state 0"]
  by simp

subsection \<open>Health\<close>

text \<open>
  The uptime is the difference of two readings of the wall clock. When the clock is read
  below the start time the uptime is negative, and when it is set back between two calls
  the later call reports the smaller uptime.
\<close>

theorem health_uptime_counterexample:
  "uptime (health_check 0 0 (initial_state 1000000)) < 0 \<and>
   \<not> sorted (map (\<lambda>(now1, now2). uptime (health_check now1 now2 (initial_state 0)))
               [(3000000, 3000000), (2000000, 2000000)])"
  by (simp add: health_check_def total_seconds_def initial_state_def)

text \<open>
  C9, amended. For two calls of \<^const>\<open>health_check\<close> in one run, the earlier reading \<open>now1\<close>
  and the later reading \<open>now1'\<close> for its uptime: provided the clock is not read below the
  start time and does not go back between the two calls, the uptime of the earlier call
  is not negative and the later call does not report a smaller one.
\<close>

theorem health_uptime_monotone:
  assumes "start_time s \<le> now1" and "now1 \<le> now1'"
  shows "0 \<le> uptime (health_check now1 now2 s) \<and>
         uptime (health_check now1 now2 s) \<le> uptime (health_check now1' now2' s)"
  using assms by (simp add: health_check_def total_seconds_def)

theorem health_uptime_monotone_witness:
  "start_time (initial_state 1000000) \<le> 1500000 \<and> (1500000 :: int) \<le> 4000000 \<and>
   uptime (health_check 1500000 1500001 (initial_state 1000000)) = 0.5 \<and>
   uptime (health_check 1500000 1500001 (initial_state 1000000)) \<le>
     uptime (health_check 4000000 4000002 (initial_state 1000000))"
  using health_uptime_monotone [of "initial_state 1000000" 1500000 4000000 1500001 4000002]
  by (simp add: health_check_def total_seconds_def initial_state_def)

end
